theory Spec2Isabelle
  imports Complex_Main "HOL-Library.Multiset"
begin

section \<open>The pricing and stock cascade of \<^verbatim>\<open>backend/products/models.py\<close>\<close>

text \<open>
  The three models \<^verbatim>\<open>ProductComponent\<close>, \<^verbatim>\<open>Product\<close> and \<^verbatim>\<open>ProductComposition\<close> and
  their \<^verbatim>\<open>pre_save\<close>, \<^verbatim>\<open>post_save\<close> and \<^verbatim>\<open>post_delete\<close> receivers, as functions over an
  explicit database value.

  Numbers: Python \<^verbatim>\<open>int\<close> is \<^typ>\<open>int\<close>. A \<^verbatim>\<open>Decimal\<close> is a \<^typ>\<open>rat\<close>: every amount
  the receivers compute is a sum of integer multiples of two-place prices, divided once by
  100, which \<^verbatim>\<open>Decimal\<close> evaluates exactly within its default precision of 28 digits. The
  rounding of a \<^verbatim>\<open>DecimalField\<close> column to its declared places happens in the database
  adapter, after the receivers, and is not part of this development.

  Exceptions are values of \<open>error\<close>; a function that can raise returns \<open>error + 'a\<close>.
\<close>

subsection \<open>Records\<close>

datatype error = DoesNotExist | ZeroDivisionError | ProtectedError

record ProductComponent =
  component_id :: nat
  component_title :: string
  component_slug :: string
  component_price :: rat
  new_arrival :: int
  quantity_in_stock :: int
  quantity_of_sold :: int
  available :: bool
  show_in_filter :: bool

record Product =
  product_id :: nat
  category :: nat
  title :: string
  slug :: string
  preview :: string
  price :: rat
  discount :: int
  new_price :: rat
  status :: int

text \<open>\<open>product\<close> and \<open>component\<close> are the foreign keys: the primary key of the row referred to.\<close>

record ProductComposition =
  composition_id :: nat
  product :: nat
  component :: nat
  quantity :: int

text \<open>
  The tables. Components and products are looked up by primary key only. The composition
  table is a list of rows, in the order in which the database yields them (the model
  declares no ordering), because \<^verbatim>\<open>productcomposition_set.all()\<close> is iterated and the
  first row it yields matters to \<^verbatim>\<open>get_productcomponent_status\<close>.
\<close>

record db =
  components :: "nat \<rightharpoonup> ProductComponent"
  products :: "nat \<rightharpoonup> Product"
  compositions :: "ProductComposition list"

definition STATUS_REVIEW :: int where "STATUS_REVIEW = 1"
definition STATUS_AVAILABLE :: int where "STATUS_AVAILABLE = 2"
definition STATUS_ONLY_ORDER :: int where "STATUS_ONLY_ORDER = 3"
definition STATUS_UNAVAILABLE :: int where "STATUS_UNAVAILABLE = 4"

subsection \<open>Row writes\<close>

definition write_component :: "db \<Rightarrow> ProductComponent \<Rightarrow> db" where
  "write_component d c = d\<lparr>components := (components d)(component_id c \<mapsto> c)\<rparr>"

definition write_product :: "db \<Rightarrow> Product \<Rightarrow> db" where
  "write_product d p = d\<lparr>products := (products d)(product_id p \<mapsto> p)\<rparr>"

text \<open>An \<^verbatim>\<open>UPDATE\<close> of the row with this primary key where there is one, an \<^verbatim>\<open>INSERT\<close> otherwise.\<close>

definition write_composition :: "db \<Rightarrow> ProductComposition \<Rightarrow> db" where
  "write_composition d r =
     (if composition_id r \<in> set (map composition_id (compositions d))
      then d\<lparr>compositions :=
               map (\<lambda>x. if composition_id x = composition_id r then r else x) (compositions d)\<rparr>
      else d\<lparr>compositions := compositions d @ [r]\<rparr>)"

definition remove_composition :: "db \<Rightarrow> ProductComposition \<Rightarrow> db" where
  "remove_composition d r =
     d\<lparr>compositions := filter (\<lambda>x. composition_id x \<noteq> composition_id r) (compositions d)\<rparr>"

text \<open>The reverse relation \<^verbatim>\<open>productcomposition_set.all()\<close>, of a product and of a component.\<close>

definition product_productcomposition_set :: "db \<Rightarrow> nat \<Rightarrow> ProductComposition list" where
  "product_productcomposition_set d pid = filter (\<lambda>r. product r = pid) (compositions d)"

definition component_productcomposition_set :: "db \<Rightarrow> nat \<Rightarrow> ProductComposition list" where
  "component_productcomposition_set d cid = filter (\<lambda>r. component r = cid) (compositions d)"

subsection \<open>ProductComponent\<close>

definition add_new_arrival :: "ProductComponent \<Rightarrow> ProductComponent" where
  "add_new_arrival c =
     c\<lparr>quantity_in_stock := quantity_in_stock c + new_arrival c, new_arrival := 0\<rparr>"

definition recalculate_quantity_in_stock_before_save :: "ProductComponent \<Rightarrow> ProductComponent" where
  "recalculate_quantity_in_stock_before_save instance = add_new_arrival instance"

subsection \<open>Product\<close>

text \<open>\<^verbatim>\<open>composition.component\<close>: the row the foreign key refers to.\<close>

definition composition_component :: "db \<Rightarrow> ProductComposition \<Rightarrow> error + ProductComponent" where
  "composition_component d r =
     (case components d (component r) of None \<Rightarrow> Inl DoesNotExist | Some k \<Rightarrow> Inr k)"

definition get_composition_price :: "db \<Rightarrow> ProductComposition \<Rightarrow> error + rat" where
  "get_composition_price d r =
     (case composition_component d r of
        Inl e \<Rightarrow> Inl e
      | Inr k \<Rightarrow> Inr (of_int (quantity r) * component_price k))"

fun get_price_loop :: "db \<Rightarrow> rat \<Rightarrow> ProductComposition list \<Rightarrow> error + rat" where
  "get_price_loop d acc [] = Inr acc"
| "get_price_loop d acc (r # rs) =
     (case get_composition_price d r of
        Inl e \<Rightarrow> Inl e
      | Inr v \<Rightarrow> get_price_loop d (acc + v) rs)"

definition get_price :: "db \<Rightarrow> Product \<Rightarrow> error + rat" where
  "get_price d p = get_price_loop d 0 (product_productcomposition_set d (product_id p))"

definition get_new_price :: "Product \<Rightarrow> rat" where
  "get_new_price p = (price p / 100) * of_int (100 - discount p)"

text \<open>Python's \<^verbatim>\<open>//\<close> on integers: floor division, \<^verbatim>\<open>ZeroDivisionError\<close> on a zero divisor.\<close>

definition py_floordiv :: "int \<Rightarrow> int \<Rightarrow> error + int" where
  "py_floordiv a b = (if b = 0 then Inl ZeroDivisionError else Inr (a div b))"

fun number_of_composition_available ::
  "db \<Rightarrow> int list \<Rightarrow> ProductComposition list \<Rightarrow> error + int list" where
  "number_of_composition_available d acc [] = Inr acc"
| "number_of_composition_available d acc (r # rs) =
     (if quantity r > 0 then
        (case composition_component d r of
           Inl e \<Rightarrow> Inl e
         | Inr k \<Rightarrow>
             (case py_floordiv (quantity_in_stock k) (quantity r) of
                Inl e \<Rightarrow> Inl e
              | Inr q \<Rightarrow> number_of_composition_available d (acc @ [q]) rs))
      else number_of_composition_available d acc rs)"

definition get_available_quantity_of_products :: "db \<Rightarrow> Product \<Rightarrow> error + int" where
  "get_available_quantity_of_products d p =
     (case number_of_composition_available d []
             (product_productcomposition_set d (product_id p)) of
        Inl e \<Rightarrow> Inl e
      | Inr qs \<Rightarrow> Inr (if qs \<noteq> [] then min_list qs else 0))"

definition get_status :: "db \<Rightarrow> Product \<Rightarrow> error + int" where
  "get_status d p =
     (case get_available_quantity_of_products d p of
        Inl e \<Rightarrow> Inl e
      | Inr n \<Rightarrow> Inr (if n > 0 then STATUS_AVAILABLE else STATUS_ONLY_ORDER))"

text \<open>
  The loop body is a \<^verbatim>\<open>return\<close>: the result is the flag of the component of the first
  composition, and \<^verbatim>\<open>None\<close> when the product has no composition.
\<close>

definition get_productcomponent_status :: "db \<Rightarrow> Product \<Rightarrow> error + bool option" where
  "get_productcomponent_status d p =
     (case product_productcomposition_set d (product_id p) of
        [] \<Rightarrow> Inr None
      | r # _ \<Rightarrow>
          (case composition_component d r of
             Inl e \<Rightarrow> Inl e
           | Inr k \<Rightarrow> Inr (Some (available k))))"

text \<open>The \<^verbatim>\<open>pre_save\<close> receiver of \<^verbatim>\<open>Product\<close>; it works on the instance being saved.\<close>

definition recalculate_new_price :: "db \<Rightarrow> Product \<Rightarrow> error + Product" where
  "recalculate_new_price d instance =
     (case get_productcomponent_status d instance of
        Inl e \<Rightarrow> Inl e
      | Inr s \<Rightarrow>
          (let product1 = (if s = Some False then instance\<lparr>status := STATUS_UNAVAILABLE\<rparr>
                           else instance)
           in Inr (product1\<lparr>new_price := get_new_price product1\<rparr>)))"

text \<open>
  Modelled from the spec: \<^verbatim>\<open>OrderItem\<close> and its \<^verbatim>\<open>save\<close> live in the orders application,
  which is not among the sources. The specification calls the resynchronisation of the
  order items of a product a read-only cascade that re-derives what an order item caches
  from the product; it leaves the component, product and composition tables as they are.
\<close>

definition save_orderitem :: "db \<Rightarrow> Product \<Rightarrow> error + db" where
  "save_orderitem d p = Inr d"

definition save_orderitem_after_save :: "db \<Rightarrow> Product \<Rightarrow> error + db" where
  "save_orderitem_after_save d instance = save_orderitem d instance"

text \<open>\<^verbatim>\<open>product.save()\<close>: the \<^verbatim>\<open>pre_save\<close> receiver, the row write, the \<^verbatim>\<open>post_save\<close> receiver.\<close>

definition save_product :: "db \<Rightarrow> Product \<Rightarrow> error + db" where
  "save_product d p =
     (case recalculate_new_price d p of
        Inl e \<Rightarrow> Inl e
      | Inr p' \<Rightarrow> save_orderitem_after_save (write_product d p') p')"

subsection \<open>ProductComposition\<close>

text \<open>\<^verbatim>\<open>instance.product\<close>: the row the foreign key refers to.\<close>

definition composition_product :: "db \<Rightarrow> ProductComposition \<Rightarrow> error + Product" where
  "composition_product d r =
     (case products d (product r) of None \<Rightarrow> Inl DoesNotExist | Some p \<Rightarrow> Inr p)"

definition save_product_after_save :: "db \<Rightarrow> ProductComposition \<Rightarrow> error + db" where
  "save_product_after_save d instance =
     (case composition_product d instance of
        Inl e \<Rightarrow> Inl e
      | Inr p \<Rightarrow>
          (case get_price d p of
             Inl e \<Rightarrow> Inl e
           | Inr v \<Rightarrow>
               (case get_status d (p\<lparr>price := v\<rparr>) of
                  Inl e \<Rightarrow> Inl e
                | Inr s \<Rightarrow> save_product d (p\<lparr>price := v, status := s\<rparr>))))"

definition save_product_after_delete :: "db \<Rightarrow> ProductComposition \<Rightarrow> error + db" where
  "save_product_after_delete d instance =
     (case composition_product d instance of
        Inl e \<Rightarrow> Inl e
      | Inr p \<Rightarrow>
          (case get_price d p of
             Inl e \<Rightarrow> Inl e
           | Inr v \<Rightarrow>
               (case get_status d (p\<lparr>price := v\<rparr>) of
                  Inl e \<Rightarrow> Inl e
                | Inr s \<Rightarrow> save_product d (p\<lparr>price := v, status := s\<rparr>))))"

text \<open>\<^verbatim>\<open>composition.save()\<close> and \<^verbatim>\<open>composition.delete()\<close>: the row change, then the receiver.\<close>

definition save_composition :: "db \<Rightarrow> ProductComposition \<Rightarrow> error + db" where
  "save_composition d r = save_product_after_save (write_composition d r) r"

definition delete_composition :: "db \<Rightarrow> ProductComposition \<Rightarrow> error + db" where
  "delete_composition d r = save_product_after_delete (remove_composition d r) r"

subsection \<open>The cascade of a component write\<close>

fun save_compositions :: "db \<Rightarrow> ProductComposition list \<Rightarrow> error + db" where
  "save_compositions d [] = Inr d"
| "save_compositions d (r # rs) =
     (case save_composition d r of
        Inl e \<Rightarrow> Inl e
      | Inr d' \<Rightarrow> save_compositions d' rs)"

definition save_related_productcompositions :: "db \<Rightarrow> ProductComponent \<Rightarrow> error + db" where
  "save_related_productcompositions d c =
     save_compositions d (component_productcomposition_set d (component_id c))"

definition save_productcomposition :: "db \<Rightarrow> ProductComponent \<Rightarrow> error + db" where
  "save_productcomposition d instance = save_related_productcompositions d instance"

text \<open>\<^verbatim>\<open>component.save()\<close>: the \<^verbatim>\<open>pre_save\<close> receiver, the row write, the \<^verbatim>\<open>post_save\<close> receiver.\<close>

definition save_component :: "db \<Rightarrow> ProductComponent \<Rightarrow> error + db" where
  "save_component d c =
     (let c' = recalculate_quantity_in_stock_before_save c
      in save_productcomposition (write_component d c') c')"

text \<open>
  \<^verbatim>\<open>component.delete()\<close>. The foreign key \<^verbatim>\<open>ProductComposition.component\<close> is declared
  \<^verbatim>\<open>on_delete=models.PROTECT\<close>: the deletion raises \<^verbatim>\<open>ProtectedError\<close> while a composition
  refers to the component, before any row is touched. The result carries the database that
  is left behind in either case.
\<close>

definition delete_component :: "db \<Rightarrow> ProductComponent \<Rightarrow> (error + unit) \<times> db" where
  "delete_component d c =
     (if component_productcomposition_set d (component_id c) \<noteq> []
      then (Inl ProtectedError, d)
      else (Inr (), d\<lparr>components := (components d)(component_id c := None)\<rparr>))"

subsection \<open>Well-formed databases\<close>

text \<open>
  What the database itself guarantees: a row is stored under its own primary key, the
  primary keys of the compositions are distinct, and every foreign key of a composition
  refers to a stored row.
\<close>

definition wf_db :: "db \<Rightarrow> bool" where
  "wf_db d \<longleftrightarrow>
     distinct (map composition_id (compositions d)) \<and>
     list_all (\<lambda>r. (case products d (product r) of
                      None \<Rightarrow> False | Some p \<Rightarrow> product_id p = product r) \<and>
                   components d (component r) \<noteq> None) (compositions d)"

subsection \<open>Closed forms\<close>

text \<open>
  The values the receivers derive, written as total functions of the tables: what the
  stored fields are compared with below. A composition whose component is missing
  contributes nothing here; in a well-formed database there is none.
\<close>

definition line_cost :: "db \<Rightarrow> ProductComposition \<Rightarrow> rat" where
  "line_cost d r =
     (case components d (component r) of
        None \<Rightarrow> 0
      | Some k \<Rightarrow> of_int (quantity r) * component_price k)"

definition sum_of_line_costs :: "db \<Rightarrow> nat \<Rightarrow> rat" where
  "sum_of_line_costs d pid = sum_list (map (line_cost d) (product_productcomposition_set d pid))"

text \<open>
  The quotients \<open>quantity_in_stock div quantity\<close> of the compositions of positive quantity,
  and the status decided by their minimum.
\<close>

definition units_available :: "db \<Rightarrow> ProductComposition \<Rightarrow> int" where
  "units_available d r =
     (case components d (component r) of
        None \<Rightarrow> 0
      | Some k \<Rightarrow> quantity_in_stock k div quantity r)"

definition units_per_composition :: "db \<Rightarrow> nat \<Rightarrow> int list" where
  "units_per_composition d pid =
     map (units_available d) (filter (\<lambda>r. 0 < quantity r) (product_productcomposition_set d pid))"

definition status_by_stock :: "db \<Rightarrow> nat \<Rightarrow> int" where
  "status_by_stock d pid =
     (if units_per_composition d pid \<noteq> [] \<and> 0 < Min (set (units_per_composition d pid))
      then STATUS_AVAILABLE else STATUS_ONLY_ORDER)"

text \<open>Every component composed into the product is stored and available.\<close>

definition all_components_available :: "db \<Rightarrow> nat \<Rightarrow> bool" where
  "all_components_available d pid =
     list_all (\<lambda>r. case components d (component r) of None \<Rightarrow> False | Some k \<Rightarrow> available k)
       (product_productcomposition_set d pid)"

text \<open>What \<^verbatim>\<open>get_productcomponent_status\<close> reports as \<^verbatim>\<open>False\<close>.\<close>

definition first_component_unavailable :: "db \<Rightarrow> nat \<Rightarrow> bool" where
  "first_component_unavailable d pid =
     (case product_productcomposition_set d pid of
        [] \<Rightarrow> False
      | r # _ \<Rightarrow> (case components d (component r) of None \<Rightarrow> False | Some k \<Rightarrow> \<not> available k))"

text \<open>The product row after a recomputation, and the database after recomputing a set of products.\<close>

definition recalculated :: "db \<Rightarrow> Product \<Rightarrow> Product" where
  "recalculated d p =
     p\<lparr>price := sum_of_line_costs d (product_id p),
       new_price := (sum_of_line_costs d (product_id p) / 100) * of_int (100 - discount p),
       status := (if first_component_unavailable d (product_id p) then STATUS_UNAVAILABLE
                  else status_by_stock d (product_id p))\<rparr>"

definition recalculate_products :: "db \<Rightarrow> nat set \<Rightarrow> db" where
  "recalculate_products d S =
     d\<lparr>products := (\<lambda>pid. if pid \<in> S then map_option (recalculated d) (products d pid)
                           else products d pid)\<rparr>"

definition components_stored :: "db \<Rightarrow> ProductComposition list \<Rightarrow> bool" where
  "components_stored d rs = list_all (\<lambda>r. components d (component r) \<noteq> None) rs"


subsection \<open>A small shop\<close>

text \<open>
  Component A (price 5, 10 in stock, available), component B (price 3, 4 in stock,
  unavailable), product P made of two units of A, and product Q without compositions.
  In \<open>db_mixed\<close> P has a second composition, one unit of B; \<open>db_moved\<close> is \<open>db_shop\<close>
  after the composition of P has been moved to Q. Status 2 is available, 3 is order-only.
\<close>

definition component_A :: ProductComponent where
  "component_A = \<lparr>component_id = 1, component_title = ''A'', component_slug = ''a'',
     component_price = 5, new_arrival = 0, quantity_in_stock = 10, quantity_of_sold = 0,
     available = True, show_in_filter = False\<rparr>"

definition component_B :: ProductComponent where
  "component_B = \<lparr>component_id = 2, component_title = ''B'', component_slug = ''b'',
     component_price = 3, new_arrival = 0, quantity_in_stock = 4, quantity_of_sold = 0,
     available = False, show_in_filter = False\<rparr>"

definition product_P :: Product where
  "product_P = \<lparr>product_id = 1, category = 1, title = ''P'', slug = ''p'', preview = ''p.png'',
     price = 10, discount = 20, new_price = 8, status = 2\<rparr>"

definition product_Q :: Product where
  "product_Q = \<lparr>product_id = 2, category = 1, title = ''Q'', slug = ''q'', preview = ''q.png'',
     price = 0, discount = 0, new_price = 0, status = 3\<rparr>"

definition composition_PA :: ProductComposition where
  "composition_PA = \<lparr>composition_id = 1, product = 1, component = 1, quantity = 2\<rparr>"

definition composition_PB :: ProductComposition where
  "composition_PB = \<lparr>composition_id = 2, product = 1, component = 2, quantity = 1\<rparr>"

definition db_shop :: db where
  "db_shop = \<lparr>components = [1 \<mapsto> component_A, 2 \<mapsto> component_B],
              products = [1 \<mapsto> product_P, 2 \<mapsto> product_Q],
              compositions = [composition_PA]\<rparr>"

definition db_mixed :: db where
  "db_mixed = \<lparr>components = [1 \<mapsto> component_A, 2 \<mapsto> component_B],
               products = [1 \<mapsto> product_P, 2 \<mapsto> product_Q],
               compositions = [composition_PA, composition_PB]\<rparr>"

definition db_moved :: db where
  "db_moved = \<lparr>components = [1 \<mapsto> component_A, 2 \<mapsto> component_B],
               products = [1 \<mapsto> product_P,
                           2 \<mapsto> product_Q\<lparr>price := 10, new_price := 10, status := 2\<rparr>],
               compositions = [composition_PA\<lparr>product := 2\<rparr>]\<rparr>"

text \<open>A second composition, one unit of A in Q, and the shop in which P and Q share A.\<close>

definition composition_QA :: ProductComposition where
  "composition_QA = \<lparr>composition_id = 3, product = 2, component = 1, quantity = 1\<rparr>"

definition db_shared :: db where
  "db_shared = \<lparr>components = [1 \<mapsto> component_A, 2 \<mapsto> component_B],
                products = [1 \<mapsto> product_P, 2 \<mapsto> product_Q],
                compositions = [composition_PA, composition_QA]\<rparr>"

section \<open>Properties of the embedding\<close>

lemmas shop_defs = component_A_def component_B_def product_P_def product_Q_def
  composition_PA_def composition_PB_def composition_QA_def db_shop_def db_mixed_def db_moved_def
  db_shared_def

lemmas status_defs = STATUS_REVIEW_def STATUS_AVAILABLE_def STATUS_ONLY_ORDER_def
  STATUS_UNAVAILABLE_def

lemma wf_db_shop: "wf_db db_shop"
  by (simp add: wf_db_def shop_defs)

lemma wf_db_mixed: "wf_db db_mixed"
  by (simp add: wf_db_def shop_defs)

lemma components_stored_Cons [simp]:
  "components_stored d (r # rs) \<longleftrightarrow> components d (component r) \<noteq> None \<and> components_stored d rs"
  by (simp add: components_stored_def)

lemma components_stored_Nil [simp]: "components_stored d []"
  by (simp add: components_stored_def)

lemma get_price_loop_sum:
  "components_stored d rs \<Longrightarrow>
   get_price_loop d acc rs = Inr (acc + sum_list (map (line_cost d) rs))"
proof (induction rs arbitrary: acc)
  case Nil
  show ?case by simp
next
  case (Cons r rs)
  then obtain k where k: "components d (component r) = Some k" by auto
  have "get_composition_price d r = Inr (line_cost d r)"
    by (simp add: get_composition_price_def composition_component_def line_cost_def k)
  with Cons show ?case by (simp add: add.assoc)
qed

lemma number_of_composition_available_map:
  "components_stored d rs \<Longrightarrow>
   number_of_composition_available d acc rs =
     Inr (acc @ map (units_available d) (filter (\<lambda>r. 0 < quantity r) rs))"
proof (induction rs arbitrary: acc)
  case Nil
  show ?case by simp
next
  case (Cons r rs)
  then obtain k where k: "components d (component r) = Some k" by auto
  from Cons have IH: "\<And>acc. number_of_composition_available d acc rs =
     Inr (acc @ map (units_available d) (filter (\<lambda>r. 0 < quantity r) rs))" by simp
  show ?case
    by (simp add: IH composition_component_def k py_floordiv_def units_available_def)
qed

lemma wf_db_components_stored:
  "wf_db d \<Longrightarrow> components_stored d (product_productcomposition_set d pid)"
  by (auto simp: wf_db_def components_stored_def product_productcomposition_set_def list_all_iff)

lemma get_price_wf:
  "wf_db d \<Longrightarrow> get_price d p = Inr (sum_of_line_costs d (product_id p))"
  by (simp add: get_price_def sum_of_line_costs_def get_price_loop_sum wf_db_components_stored)

lemma get_available_wf:
  "wf_db d \<Longrightarrow> get_available_quantity_of_products d p =
     Inr (if units_per_composition d (product_id p) \<noteq> []
          then min_list (units_per_composition d (product_id p)) else 0)"
  by (simp add: get_available_quantity_of_products_def units_per_composition_def
      number_of_composition_available_map wf_db_components_stored)

lemma get_status_wf:
  "wf_db d \<Longrightarrow> get_status d p = Inr (status_by_stock d (product_id p))"
  by (simp add: get_status_def get_available_wf status_by_stock_def min_list_Min)

lemma get_productcomponent_status_wf:
  "wf_db d \<Longrightarrow> \<exists>a. get_productcomponent_status d p = Inr a \<and>
     (a = Some False \<longleftrightarrow> first_component_unavailable d (product_id p))"
proof -
  assume "wf_db d"
  then have cs: "components_stored d (product_productcomposition_set d (product_id p))"
    by (rule wf_db_components_stored)
  show ?thesis
  proof (cases "product_productcomposition_set d (product_id p)")
    case Nil
    then show ?thesis
      by (simp add: get_productcomponent_status_def first_component_unavailable_def)
  next
    case (Cons r rs)
    with cs obtain k where "components d (component r) = Some k" by auto
    with Cons show ?thesis
      by (simp add: get_productcomponent_status_def first_component_unavailable_def
          composition_component_def)
  qed
qed

lemma save_product_recalculated:
  assumes "wf_db d"
  shows "save_product d (p\<lparr>price := sum_of_line_costs d (product_id p),
                          status := status_by_stock d (product_id p)\<rparr>)
         = Inr (write_product d (recalculated d p))"
proof -
  let ?q = "p\<lparr>price := sum_of_line_costs d (product_id p),
              status := status_by_stock d (product_id p)\<rparr>"
  from get_productcomponent_status_wf [OF assms, of ?q]
  obtain a where a: "get_productcomponent_status d ?q = Inr a"
    "a = Some False \<longleftrightarrow> first_component_unavailable d (product_id p)" by auto
  have "recalculate_new_price d ?q = Inr (recalculated d p)"
    using a by (simp add: recalculate_new_price_def Let_def recalculated_def get_new_price_def)
  then show ?thesis
    by (simp add: save_product_def save_orderitem_after_save_def save_orderitem_def)
qed

lemma save_product_after_save_wf:
  assumes "wf_db d" and "products d (product r) = Some p"
  shows "save_product_after_save d r = Inr (write_product d (recalculated d p))"
  using assms save_product_recalculated [OF assms(1), of p]
  by (simp add: save_product_after_save_def composition_product_def get_price_wf get_status_wf)

lemma save_product_after_delete_eq:
  "save_product_after_delete d r = save_product_after_save d r"
  by (simp add: save_product_after_delete_def save_product_after_save_def)

lemma product_set_products_update [simp]:
  "product_productcomposition_set (d\<lparr>products := x\<rparr>) pid = product_productcomposition_set d pid"
  by (simp add: product_productcomposition_set_def)

lemma line_cost_products_update [simp]: "line_cost (d\<lparr>products := x\<rparr>) = line_cost d"
  by (rule ext) (simp add: line_cost_def)

lemma units_available_products_update [simp]:
  "units_available (d\<lparr>products := x\<rparr>) = units_available d"
  by (rule ext) (simp add: units_available_def)

lemma sum_of_line_costs_products_update [simp]:
  "sum_of_line_costs (d\<lparr>products := x\<rparr>) pid = sum_of_line_costs d pid"
  by (simp add: sum_of_line_costs_def)

lemma status_by_stock_products_update [simp]:
  "status_by_stock (d\<lparr>products := x\<rparr>) pid = status_by_stock d pid"
  by (simp add: status_by_stock_def units_per_composition_def)

lemma first_component_unavailable_products_update [simp]:
  "first_component_unavailable (d\<lparr>products := x\<rparr>) pid = first_component_unavailable d pid"
  by (simp add: first_component_unavailable_def split: list.splits)

lemma recalculated_products_update [simp]:
  "recalculated (d\<lparr>products := x\<rparr>) = recalculated d"
  by (rule ext) (simp add: recalculated_def)

lemma product_id_recalculated [simp]: "product_id (recalculated d p) = product_id p"
  by (simp add: recalculated_def)

lemma recalculated_idem [simp]: "recalculated d (recalculated d p) = recalculated d p"
  by (simp add: recalculated_def)

lemma wf_db_recalculate_products:
  "wf_db d \<Longrightarrow> wf_db (recalculate_products d S)"
  by (auto simp: wf_db_def recalculate_products_def list_all_iff split: option.splits)

lemma write_product_recalculated:
  "products d pid = Some p \<Longrightarrow> product_id p = pid \<Longrightarrow>
   write_product d (recalculated d p) = recalculate_products d {pid}"
  by (auto simp: write_product_def recalculate_products_def intro!: arg_cong [where f = "\<lambda>x. d\<lparr>products := x\<rparr>"])

lemma recalculate_products_twice:
  "recalculate_products (recalculate_products d S) T = recalculate_products d (S \<union> T)"
proof -
  have "(\<lambda>pid. if pid \<in> T
              then map_option (recalculated d)
                     (if pid \<in> S then map_option (recalculated d) (products d pid)
                      else products d pid)
              else if pid \<in> S then map_option (recalculated d) (products d pid)
                   else products d pid)
        = (\<lambda>pid. if pid \<in> S \<union> T then map_option (recalculated d) (products d pid)
                  else products d pid)"
    by (rule ext) (simp add: option.map_comp comp_def)
  then show ?thesis
    by (simp add: recalculate_products_def cong: if_cong)
qed

lemma write_composition_stored:
  assumes "distinct (map composition_id (compositions d))" and "r \<in> set (compositions d)"
  shows "write_composition d r = d"
proof -
  have "map (\<lambda>x. if composition_id x = composition_id r then r else x) (compositions d)
        = compositions d"
  proof (rule map_idI)
    fix x assume "x \<in> set (compositions d)"
    with assms show "(if composition_id x = composition_id r then r else x) = x"
      by (auto simp: distinct_map inj_on_def)
  qed
  with assms(2) show ?thesis by (simp add: write_composition_def)
qed

lemma wf_db_product_stored:
  "wf_db d \<Longrightarrow> r \<in> set (compositions d) \<Longrightarrow>
   \<exists>p. products d (product r) = Some p \<and> product_id p = product r"
  by (auto simp: wf_db_def list_all_iff split: option.splits)

lemma save_composition_stored:
  assumes "wf_db d" and "r \<in> set (compositions d)"
  shows "save_composition d r = Inr (recalculate_products d {product r})"
proof -
  from assms have w: "write_composition d r = d"
    by (simp add: write_composition_stored wf_db_def)
  from wf_db_product_stored [OF assms]
  obtain p where p: "products d (product r) = Some p" "product_id p = product r" by auto
  show ?thesis
    by (simp add: save_composition_def w save_product_after_save_wf [OF assms(1) p(1)]
        write_product_recalculated [OF p])
qed

lemma compositions_recalculate_products [simp]:
  "compositions (recalculate_products d S) = compositions d"
  by (simp add: recalculate_products_def)

lemma components_recalculate_products [simp]:
  "components (recalculate_products d S) = components d"
  by (simp add: recalculate_products_def)

lemma recalculate_products_empty [simp]: "recalculate_products d {} = d"
  by (simp add: recalculate_products_def)

lemma save_compositions_stored:
  "wf_db d \<Longrightarrow> set rs \<subseteq> set (compositions d) \<Longrightarrow>
   save_compositions d rs = Inr (recalculate_products d (product ` set rs))"
proof (induction rs arbitrary: d)
  case Nil
  show ?case by simp
next
  case (Cons r rs)
  let ?d1 = "recalculate_products d {product r}"
  from Cons.prems have step: "save_composition d r = Inr ?d1"
    by (simp add: save_composition_stored)
  from Cons.prems have "wf_db ?d1" and "set rs \<subseteq> set (compositions ?d1)"
    by (simp_all add: wf_db_recalculate_products)
  then have "save_compositions ?d1 rs = Inr (recalculate_products ?d1 (product ` set rs))"
    by (rule Cons.IH)
  with step show ?case by (simp add: recalculate_products_twice)
qed

lemma wf_db_write_component:
  "wf_db d \<Longrightarrow> wf_db (write_component d c)"
  by (auto simp: wf_db_def write_component_def list_all_iff)

lemma wf_db_write_composition:
  assumes "wf_db d" and "products d (product r) = Some p" and "product_id p = product r"
    and "components d (component r) \<noteq> None"
  shows "wf_db (write_composition d r)"
proof (cases "composition_id r \<in> set (map composition_id (compositions d))")
  case True
  let ?f = "\<lambda>x. if composition_id x = composition_id r then r else x"
  have "composition_id \<circ> ?f = composition_id"
    by (rule ext) simp
  then have ids: "map composition_id (map ?f (compositions d)) = map composition_id (compositions d)"
    by simp
  have rows: "compositions (write_composition d r) = map ?f (compositions d)"
    using True by (simp add: write_composition_def)
  have tabs: "products (write_composition d r) = products d"
    "components (write_composition d r) = components d"
    by (simp_all add: write_composition_def)
  have "distinct (map composition_id (compositions (write_composition d r)))"
    using assms(1) by (simp only: rows ids) (simp add: wf_db_def)
  moreover have "list_all (\<lambda>r. (case products d (product r) of
                      None \<Rightarrow> False | Some p \<Rightarrow> product_id p = product r) \<and>
                   components d (component r) \<noteq> None) (map ?f (compositions d))"
    using assms by (auto simp: wf_db_def list_all_iff)
  ultimately show ?thesis
    by (simp add: wf_db_def tabs rows)
next
  case False
  with assms show ?thesis
    by (auto simp: wf_db_def write_composition_def list_all_iff)
qed

lemma wf_db_remove_composition:
  "wf_db d \<Longrightarrow> wf_db (remove_composition d r)"
  by (auto simp: wf_db_def remove_composition_def list_all_iff distinct_map_filter)

lemma save_component_wf:
  assumes "wf_db d"
  shows "save_component d c =
     Inr (recalculate_products (write_component d (add_new_arrival c))
            (product ` set (component_productcomposition_set
                              (write_component d (add_new_arrival c)) (component_id c))))"
proof -
  let ?d1 = "write_component d (add_new_arrival c)"
  have "wf_db ?d1" using assms by (rule wf_db_write_component)
  moreover have "set (component_productcomposition_set ?d1 (component_id c)) \<subseteq> set (compositions ?d1)"
    by (simp add: component_productcomposition_set_def)
  ultimately show ?thesis
    by (simp add: save_component_def save_productcomposition_def
        save_related_productcompositions_def recalculate_quantity_in_stock_before_save_def
        Let_def save_compositions_stored add_new_arrival_def)
qed

subsection \<open>Frames and closed forms of the receivers\<close>

lemma all_available_first:
  "all_components_available d pid \<Longrightarrow> \<not> first_component_unavailable d pid"
  by (auto simp: all_components_available_def first_component_unavailable_def
      split: list.splits option.splits)

lemma products_recalculate_products_in:
  "products d pid = Some p \<Longrightarrow>
   products (recalculate_products d {pid}) pid = Some (recalculated d p)"
  by (simp add: recalculate_products_def)

lemma sum_of_line_costs_recalculate_products [simp]:
  "sum_of_line_costs (recalculate_products d S) pid = sum_of_line_costs d pid"
  by (simp add: recalculate_products_def)

lemma status_by_stock_recalculate_products [simp]:
  "status_by_stock (recalculate_products d S) pid = status_by_stock d pid"
  by (simp add: recalculate_products_def)

lemma first_component_unavailable_recalculate_products [simp]:
  "first_component_unavailable (recalculate_products d S) pid = first_component_unavailable d pid"
  by (simp add: recalculate_products_def)

lemma all_components_available_recalculate_products [simp]:
  "all_components_available (recalculate_products d S) pid = all_components_available d pid"
  by (simp add: recalculate_products_def all_components_available_def)

lemma products_write_composition [simp]: "products (write_composition d r) = products d"
  by (simp add: write_composition_def)

lemma components_write_composition [simp]: "components (write_composition d r) = components d"
  by (simp add: write_composition_def)

lemma products_remove_composition [simp]: "products (remove_composition d r) = products d"
  by (simp add: remove_composition_def)

lemma components_remove_composition [simp]: "components (remove_composition d r) = components d"
  by (simp add: remove_composition_def)

text \<open>What a composition write and a composition delete leave behind.\<close>

lemma save_composition_wf:
  assumes "wf_db d" and "products d (product r) = Some p" and "product_id p = product r"
    and "components d (component r) \<noteq> None"
  shows "save_composition d r = Inr (recalculate_products (write_composition d r) {product r})"
proof -
  have "wf_db (write_composition d r)"
    using assms by (rule wf_db_write_composition)
  moreover have "products (write_composition d r) (product r) = Some p"
    using assms(2) by simp
  ultimately have "save_product_after_save (write_composition d r) r
        = Inr (write_product (write_composition d r) (recalculated (write_composition d r) p))"
    by (rule save_product_after_save_wf)
  moreover have "write_product (write_composition d r) (recalculated (write_composition d r) p)
        = recalculate_products (write_composition d r) {product r}"
    using assms(2,3) by (simp add: write_product_recalculated)
  ultimately show ?thesis
    by (simp add: save_composition_def)
qed

lemma delete_composition_wf:
  assumes "wf_db d" and "products d (product r) = Some p" and "product_id p = product r"
  shows "delete_composition d r = Inr (recalculate_products (remove_composition d r) {product r})"
proof -
  have "wf_db (remove_composition d r)"
    using assms(1) by (rule wf_db_remove_composition)
  moreover have "products (remove_composition d r) (product r) = Some p"
    using assms(2) by simp
  ultimately have "save_product_after_save (remove_composition d r) r
        = Inr (write_product (remove_composition d r) (recalculated (remove_composition d r) p))"
    by (rule save_product_after_save_wf)
  moreover have "write_product (remove_composition d r) (recalculated (remove_composition d r) p)
        = recalculate_products (remove_composition d r) {product r}"
    using assms(2,3) by (simp add: write_product_recalculated)
  ultimately show ?thesis
    by (simp add: delete_composition_def save_product_after_delete_eq)
qed

lemma price_recalculated [simp]: "price (recalculated d p) = sum_of_line_costs d (product_id p)"
  by (simp add: recalculated_def)

lemma status_recalculated [simp]:
  "status (recalculated d p) =
     (if first_component_unavailable d (product_id p) then STATUS_UNAVAILABLE
      else status_by_stock d (product_id p))"
  by (simp add: recalculated_def)

lemma new_price_recalculated [simp]:
  "new_price (recalculated d p) =
     sum_of_line_costs d (product_id p) * of_int (100 - discount p) / 100"
  by (simp add: recalculated_def)

lemma discount_recalculated [simp]: "discount (recalculated d p) = discount p"
  by (simp add: recalculated_def)

lemma only_composition_removed:
  assumes "list_all (\<lambda>x. composition_id x = composition_id r)
             (product_productcomposition_set d (product r))"
  shows "product_productcomposition_set (remove_composition d r) (product r) = []"
  using assms
  by (auto simp: product_productcomposition_set_def remove_composition_def list_all_iff
      filter_empty_conv)

lemma compositions_write_product [simp]: "compositions (write_product d p) = compositions d"
  by (simp add: write_product_def)

lemma components_write_product [simp]: "components (write_product d p) = components d"
  by (simp add: write_product_def)

lemma products_write_product [simp]: "products (write_product d p) (product_id p) = Some p"
  by (simp add: write_product_def)

lemma sum_of_line_costs_write_product [simp]:
  "sum_of_line_costs (write_product d p) pid = sum_of_line_costs d pid"
  by (simp add: write_product_def)

lemma status_by_stock_write_product [simp]:
  "status_by_stock (write_product d p) pid = status_by_stock d pid"
  by (simp add: write_product_def)

lemma all_components_available_write_product [simp]:
  "all_components_available (write_product d p) pid = all_components_available d pid"
  by (simp add: write_product_def all_components_available_def)

lemma first_component_unavailable_write_product [simp]:
  "first_component_unavailable (write_product d p) pid = first_component_unavailable d pid"
  by (simp add: write_product_def)

lemma save_composition_product:
  assumes "wf_db d" and "products d (product r) = Some p" and "product_id p = product r"
    and "components d (component r) \<noteq> None"
  shows "save_composition d r =
     Inr (write_product (write_composition d r) (recalculated (write_composition d r) p))"
  using save_composition_wf [OF assms] assms(2,3)
  by (simp add: write_product_recalculated)

lemma delete_composition_product:
  assumes "wf_db d" and "products d (product r) = Some p" and "product_id p = product r"
  shows "delete_composition d r =
     Inr (write_product (remove_composition d r) (recalculated (remove_composition d r) p))"
  using delete_composition_wf [OF assms] assms(2,3)
  by (simp add: write_product_recalculated)

lemma compositions_write_component [simp]: "compositions (write_component d c) = compositions d"
  by (simp add: write_component_def)

lemma products_write_component [simp]: "products (write_component d c) = products d"
  by (simp add: write_component_def)

lemma component_set_write_component [simp]:
  "component_productcomposition_set (write_component d c) cid
     = component_productcomposition_set d cid"
  by (simp add: component_productcomposition_set_def)

lemma product_set_write_component [simp]:
  "product_productcomposition_set (write_component d c) pid
     = product_productcomposition_set d pid"
  by (simp add: product_productcomposition_set_def)

lemma component_set_recalculate_products [simp]:
  "component_productcomposition_set (recalculate_products d S) cid
     = component_productcomposition_set d cid"
  by (simp add: component_productcomposition_set_def)

lemma component_id_add_new_arrival [simp]: "component_id (add_new_arrival c) = component_id c"
  by (simp add: add_new_arrival_def)

lemma save_component_closed:
  assumes "wf_db d"
  shows "save_component d c =
     Inr (recalculate_products (write_component d (add_new_arrival c))
            (product ` set (component_productcomposition_set d (component_id c))))"
  using save_component_wf [OF assms, of c] by simp

lemma products_recalculate_products_member:
  "products d pid = Some p \<Longrightarrow> pid \<in> S \<Longrightarrow>
   products (recalculate_products d S) pid = Some (recalculated d p)"
  by (simp add: recalculate_products_def)

lemma sole_component_out_of_stock:
  assumes "wf_db d" and "product_productcomposition_set d (product r) = [r]"
    and "component r = component_id c" and "quantity_in_stock c = 0" and "new_arrival c = 0"
  shows "\<exists>d' p'. save_component d c = Inr d' \<and> products d' (product r) = Some p' \<and>
           status p' = (if available c then STATUS_ONLY_ORDER else STATUS_UNAVAILABLE)"
proof -
  let ?d1 = "write_component d (add_new_arrival c)"
  let ?S = "product ` set (component_productcomposition_set d (component_id c))"
  have "r \<in> set (product_productcomposition_set d (product r))"
    using assms(2) by simp
  then have r: "r \<in> set (compositions d)"
    by (simp add: product_productcomposition_set_def)
  with assms(3) have mem: "product r \<in> ?S"
    by (simp add: component_productcomposition_set_def)
  from wf_db_product_stored [OF assms(1) r]
  obtain p where p: "products d (product r) = Some p" "product_id p = product r" by auto
  have k: "components ?d1 (component r) = Some (add_new_arrival c)"
    by (simp add: write_component_def assms(3))
  have first: "first_component_unavailable ?d1 (product r) = (\<not> available c)"
    by (simp add: first_component_unavailable_def assms(2) k) (simp add: add_new_arrival_def)
  have "units_available ?d1 r = 0"
    by (simp add: units_available_def k) (simp add: add_new_arrival_def assms(4,5))
  then have "units_per_composition ?d1 (product r) = (if 0 < quantity r then [0] else [])"
    by (simp add: units_per_composition_def assms(2))
  then have stock: "status_by_stock ?d1 (product r) = STATUS_ONLY_ORDER"
    by (simp add: status_by_stock_def)
  have "products (recalculate_products ?d1 ?S) (product r) = Some (recalculated ?d1 p)"
    using p(1) mem by (simp add: products_recalculate_products_member)
  moreover have "status (recalculated ?d1 p)
        = (if available c then STATUS_ONLY_ORDER else STATUS_UNAVAILABLE)"
    by (simp add: p(2) first stock)
  ultimately show ?thesis
    by (simp add: save_component_closed [OF assms(1)])
qed



lemma number_of_composition_available_no_zero_division:
  "number_of_composition_available d acc rs \<noteq> Inl ZeroDivisionError"
  by (induction rs arbitrary: acc)
     (auto simp: composition_component_def py_floordiv_def split: option.splits sum.splits)

lemma number_of_composition_available_skips:
  "list_all (\<lambda>r. quantity r = 0) rs \<Longrightarrow> number_of_composition_available d acc rs = Inr acc"
  by (induction rs arbitrary: acc) auto

subsection \<open>The shop\<close>

lemmas receiver_defs = save_composition_def write_composition_def save_product_after_save_def
  composition_product_def get_price_def product_productcomposition_set_def
  get_composition_price_def composition_component_def get_status_def
  get_available_quantity_of_products_def py_floordiv_def save_product_def
  recalculate_new_price_def get_productcomponent_status_def get_new_price_def
  save_orderitem_after_save_def save_orderitem_def write_product_def Let_def


lemma shop_PA:
  "products db_shop (product composition_PA) = Some product_P"
  "product_id product_P = product composition_PA"
  "components db_shop (component composition_PA) \<noteq> None"
  by (simp_all add: shop_defs)

lemma recalculate_new_price_mixed:
  "recalculate_new_price db_mixed (product_P\<lparr>price := 100\<rparr>) =
     Inr (product_P\<lparr>price := 100, new_price := 80\<rparr>)"
  by (simp add: recalculate_new_price_def get_productcomponent_status_def
      product_productcomposition_set_def composition_component_def get_new_price_def Let_def
      shop_defs)

section \<open>The claims\<close>

text \<open>
  C1. A product write should store the status unavailable as soon as any composed
  component is unavailable. \<^verbatim>\<open>get_productcomponent_status\<close> returns inside its loop, so
  only the component of the first composition is looked at. In \<open>db_mixed\<close> P is made of
  A (available, first) and B (unavailable, second): the property reads \<open>True\<close>, a write
  of P stores P as it is, with status available, and a write of the composition of B
  recomputes P to price 13 and leaves it available as well.
\<close>

theorem first_composition_decides_unavailable:
  "product_productcomposition_set db_mixed (product_id product_P)
     = [composition_PA, composition_PB] \<and>
   components db_mixed (component composition_PB) = Some component_B \<and>
   \<not> available component_B \<and>
   get_productcomponent_status db_mixed product_P = Inr (Some True) \<and>
   save_product db_mixed product_P = Inr db_mixed \<and>
   products db_mixed (product_id product_P) = Some product_P \<and>
   status product_P = STATUS_AVAILABLE \<and>
   save_composition db_mixed composition_PB =
     Inr (write_product db_mixed (product_P\<lparr>price := 13, new_price := 52 / 5\<rparr>)) \<and>
   status (product_P\<lparr>price := 13, new_price := 52 / 5\<rparr>) = STATUS_AVAILABLE"
proof (intro conjI)
  show "product_productcomposition_set db_mixed (product_id product_P)
     = [composition_PA, composition_PB]"
    by (simp add: product_productcomposition_set_def shop_defs)
  show "components db_mixed (component composition_PB) = Some component_B"
    by (simp add: shop_defs)
  show "\<not> available component_B"
    by (simp add: component_B_def)
  show "get_productcomponent_status db_mixed product_P = Inr (Some True)"
    by (simp add: receiver_defs shop_defs)
  show "products db_mixed (product_id product_P) = Some product_P"
    by (simp add: shop_defs)
  show "status product_P = STATUS_AVAILABLE"
    by (simp add: product_P_def status_defs)
  have "recalculate_new_price db_mixed product_P = Inr product_P"
    by (simp add: receiver_defs shop_defs)
  moreover have "write_product db_mixed product_P = db_mixed"
    by (simp add: write_product_def shop_defs fun_upd_twist)
  ultimately show "save_product db_mixed product_P = Inr db_mixed"
    by (simp add: save_product_def save_orderitem_after_save_def save_orderitem_def)
  show "save_composition db_mixed composition_PB =
     Inr (write_product db_mixed (product_P\<lparr>price := 13, new_price := 52 / 5\<rparr>))"
    by (simp add: receiver_defs shop_defs status_defs)
  show "status (product_P\<lparr>price := 13, new_price := 52 / 5\<rparr>) = STATUS_AVAILABLE"
    by (simp add: product_P_def status_defs)
qed

text \<open>
  C2. After a composition write or delete has settled, the price of the product that the
  composition refers to is the sum of \<open>quantity \<times> component price\<close> over the compositions
  the product has then; it is 0 after the only composition of the product has been
  deleted. That product is the one the receivers recompute; no other product row changes.
\<close>

theorem owner_price_is_sum_of_line_costs:
  assumes "wf_db d" and "products d (product r) = Some p" and "product_id p = product r"
    and "components d (component r) \<noteq> None"
  shows "(\<exists>d' p'. save_composition d r = Inr d' \<and>
            d' = write_product (write_composition d r) p' \<and> product_id p' = product r \<and>
            products d' (product r) = Some p' \<and>
            price p' = sum_of_line_costs d' (product r)) \<and>
         (\<exists>d' p'. delete_composition d r = Inr d' \<and>
            d' = write_product (remove_composition d r) p' \<and> product_id p' = product r \<and>
            products d' (product r) = Some p' \<and>
            price p' = sum_of_line_costs d' (product r) \<and>
            (list_all (\<lambda>x. composition_id x = composition_id r)
               (product_productcomposition_set d (product r)) \<longrightarrow> price p' = 0))"
proof (intro conjI)
  let ?w = "write_composition d r"
  have "save_composition d r = Inr (write_product ?w (recalculated ?w p))"
    using assms by (rule save_composition_product)
  moreover have "products (write_product ?w (recalculated ?w p)) (product r)
        = Some (recalculated ?w p)"
    using products_write_product [of ?w "recalculated ?w p"] assms(3) by simp
  ultimately show "\<exists>d' p'. save_composition d r = Inr d' \<and>
            d' = write_product (write_composition d r) p' \<and> product_id p' = product r \<and>
            products d' (product r) = Some p' \<and>
            price p' = sum_of_line_costs d' (product r)"
    using assms(3) by simp
next
  let ?w = "remove_composition d r"
  have "delete_composition d r = Inr (write_product ?w (recalculated ?w p))"
    using assms(1-3) by (rule delete_composition_product)
  moreover have "products (write_product ?w (recalculated ?w p)) (product r)
        = Some (recalculated ?w p)"
    using products_write_product [of ?w "recalculated ?w p"] assms(3) by simp
  moreover have "list_all (\<lambda>x. composition_id x = composition_id r)
               (product_productcomposition_set d (product r)) \<Longrightarrow>
        sum_of_line_costs ?w (product r) = 0"
    by (simp add: sum_of_line_costs_def only_composition_removed)
  ultimately show "\<exists>d' p'. delete_composition d r = Inr d' \<and>
            d' = write_product (remove_composition d r) p' \<and> product_id p' = product r \<and>
            products d' (product r) = Some p' \<and>
            price p' = sum_of_line_costs d' (product r) \<and>
            (list_all (\<lambda>x. composition_id x = composition_id r)
               (product_productcomposition_set d (product r)) \<longrightarrow> price p' = 0)"
    using assms(3) by simp
qed

theorem owner_price_is_sum_of_line_costs_witness:
  "wf_db db_shop \<and> products db_shop (product composition_PA) = Some product_P \<and>
   product_id product_P = product composition_PA \<and>
   components db_shop (component composition_PA) \<noteq> None \<and>
   list_all (\<lambda>x. composition_id x = composition_id composition_PA)
     (product_productcomposition_set db_shop (product composition_PA)) \<and>
   (\<exists>d' p'. save_composition db_shop (composition_PA\<lparr>quantity := 3\<rparr>) = Inr d' \<and>
      products d' 1 = Some p' \<and> price p' = 15) \<and>
   (\<exists>d' p'. delete_composition db_shop composition_PA = Inr d' \<and>
      products d' 1 = Some p' \<and> price p' = 0)"
proof -
  let ?r = "composition_PA\<lparr>quantity := 3\<rparr>"
  have only: "list_all (\<lambda>x. composition_id x = composition_id composition_PA)
     (product_productcomposition_set db_shop (product composition_PA))"
    by (simp add: product_productcomposition_set_def shop_defs)
  have one: "product composition_PA = 1" "product ?r = 1"
    by (simp_all add: composition_PA_def)
  have h3: "products db_shop (product ?r) = Some product_P"
    "product_id product_P = product ?r"
    "components db_shop (component ?r) \<noteq> None"
    by (simp_all add: shop_defs)
  have sum3: "sum_of_line_costs (write_composition db_shop ?r) 1 = 15"
    by (simp add: sum_of_line_costs_def product_productcomposition_set_def
        write_composition_def line_cost_def shop_defs)
  from owner_price_is_sum_of_line_costs [OF wf_db_shop h3]
  obtain d' p' where "save_composition db_shop ?r = Inr d'"
    "d' = write_product (write_composition db_shop ?r) p'"
    "products d' (product ?r) = Some p'" "price p' = sum_of_line_costs d' (product ?r)"
    by blast
  then have w: "\<exists>d' p'. save_composition db_shop ?r = Inr d' \<and>
      products d' 1 = Some p' \<and> price p' = 15"
    using sum3 by (simp add: one)
  from owner_price_is_sum_of_line_costs [OF wf_db_shop shop_PA] only
  have "\<exists>d' p'. delete_composition db_shop composition_PA = Inr d' \<and>
      products d' 1 = Some p' \<and> price p' = 0"
    unfolding one by blast
  with w only wf_db_shop shop_PA show ?thesis
    by blast
qed

text \<open>
  C2, for every product: the price of a product that the written composition no longer
  refers to is not recomputed. In \<open>db_shop\<close> the price 10 of P is the sum of its line
  costs. A write that moves the composition of P to Q recomputes Q; P keeps the price 10
  although no composition of P is left and the sum of its line costs is 0.
\<close>

theorem moved_composition_leaves_old_owner_price:
  "products db_shop 1 = Some product_P \<and> sum_of_line_costs db_shop 1 = price product_P \<and>
   save_composition db_shop (composition_PA\<lparr>product := 2\<rparr>) = Inr db_moved \<and>
   products db_moved 1 = Some product_P \<and> price product_P = 10 \<and>
   sum_of_line_costs db_moved 1 = 0"
proof (intro conjI)
  show "products db_shop 1 = Some product_P"
    by (simp add: db_shop_def)
  show "sum_of_line_costs db_shop 1 = price product_P"
    by (simp add: sum_of_line_costs_def product_productcomposition_set_def line_cost_def
        shop_defs)
  show "save_composition db_shop (composition_PA\<lparr>product := 2\<rparr>) = Inr db_moved"
    by (simp add: receiver_defs shop_defs status_defs)
  show "products db_moved 1 = Some product_P"
    by (simp add: db_moved_def)
  show "price product_P = 10"
    by (simp add: product_P_def)
  show "sum_of_line_costs db_moved 1 = 0"
    by (simp add: sum_of_line_costs_def product_productcomposition_set_def db_moved_def
        composition_PA_def)
qed



text \<open>
  C4. A composition write or delete recomputes the product the composition refers to.
  When all components composed into that product are available, the stored status is
  available if the least quotient \<open>quantity_in_stock div quantity\<close> over its compositions
  of positive quantity is positive, and order-only otherwise (also when there is no such
  composition); \<open>div\<close> on \<^typ>\<open>int\<close> is floor division. In particular, a write of the
  only component of a product with stock 0 and no new arrival leaves the product order-only
  if the component is available and unavailable if it is not.
\<close>

theorem status_follows_minimum_of_stock_quotients:
  assumes "wf_db d" and "products d (product r) = Some p" and "product_id p = product r"
    and "components d (component r) \<noteq> None"
  shows "(\<exists>d' p'. save_composition d r = Inr d' \<and>
            d' = write_product (write_composition d r) p' \<and> product_id p' = product r \<and>
            products d' (product r) = Some p' \<and>
            (all_components_available d' (product r) \<longrightarrow>
               status p' = status_by_stock d' (product r))) \<and>
         (\<exists>d' p'. delete_composition d r = Inr d' \<and>
            d' = write_product (remove_composition d r) p' \<and> product_id p' = product r \<and>
            products d' (product r) = Some p' \<and>
            (all_components_available d' (product r) \<longrightarrow>
               status p' = status_by_stock d' (product r))) \<and>
         (product_productcomposition_set d (product r) = [r] \<and>
          component r = component_id c \<and> quantity_in_stock c = 0 \<and> new_arrival c = 0 \<longrightarrow>
            (\<exists>d' p'. save_component d c = Inr d' \<and> products d' (product r) = Some p' \<and>
               status p' = (if available c then STATUS_ONLY_ORDER else STATUS_UNAVAILABLE)))"
proof (intro conjI impI)
  let ?w = "write_composition d r"
  have "save_composition d r = Inr (write_product ?w (recalculated ?w p))"
    using assms by (rule save_composition_product)
  moreover have "products (write_product ?w (recalculated ?w p)) (product r)
        = Some (recalculated ?w p)"
    using products_write_product [of ?w "recalculated ?w p"] assms(3) by simp
  ultimately show "\<exists>d' p'. save_composition d r = Inr d' \<and>
      d' = write_product (write_composition d r) p' \<and> product_id p' = product r \<and>
      products d' (product r) = Some p' \<and>
      (all_components_available d' (product r) \<longrightarrow> status p' = status_by_stock d' (product r))"
    using assms(3) by (simp add: all_available_first)
next
  let ?w = "remove_composition d r"
  have "delete_composition d r = Inr (write_product ?w (recalculated ?w p))"
    using assms(1-3) by (rule delete_composition_product)
  moreover have "products (write_product ?w (recalculated ?w p)) (product r)
        = Some (recalculated ?w p)"
    using products_write_product [of ?w "recalculated ?w p"] assms(3) by simp
  ultimately show "\<exists>d' p'. delete_composition d r = Inr d' \<and>
      d' = write_product (remove_composition d r) p' \<and> product_id p' = product r \<and>
      products d' (product r) = Some p' \<and>
      (all_components_available d' (product r) \<longrightarrow> status p' = status_by_stock d' (product r))"
    using assms(3) by (simp add: all_available_first)
next
  assume "product_productcomposition_set d (product r) = [r] \<and>
          component r = component_id c \<and> quantity_in_stock c = 0 \<and> new_arrival c = 0"
  then show "\<exists>d' p'. save_component d c = Inr d' \<and> products d' (product r) = Some p' \<and>
               status p' = (if available c then STATUS_ONLY_ORDER else STATUS_UNAVAILABLE)"
    using sole_component_out_of_stock [OF assms(1)] by blast
qed

theorem status_follows_minimum_of_stock_quotients_witness:
  "wf_db db_shop \<and> products db_shop (product composition_PA) = Some product_P \<and>
   product_id product_P = product composition_PA \<and>
   components db_shop (component composition_PA) \<noteq> None \<and>
   product_productcomposition_set db_shop (product composition_PA) = [composition_PA] \<and>
   component composition_PA = component_id (component_A\<lparr>quantity_in_stock := 0\<rparr>) \<and>
   quantity_in_stock (component_A\<lparr>quantity_in_stock := 0\<rparr>) = 0 \<and>
   new_arrival (component_A\<lparr>quantity_in_stock := 0\<rparr>) = 0 \<and>
   all_components_available (write_composition db_shop composition_PA) 1 \<and>
   (\<exists>d' p'. save_composition db_shop composition_PA = Inr d' \<and>
      products d' 1 = Some p' \<and> status p' = STATUS_AVAILABLE) \<and>
   (\<exists>d' p'. save_component db_shop (component_A\<lparr>quantity_in_stock := 0\<rparr>) = Inr d' \<and>
      products d' 1 = Some p' \<and> status p' = STATUS_ONLY_ORDER) \<and>
   (\<exists>d' p'. save_component db_shop
               (component_A\<lparr>quantity_in_stock := 0, available := False\<rparr>) = Inr d' \<and>
      products d' 1 = Some p' \<and> status p' = STATUS_UNAVAILABLE)"
proof -
  let ?c = "component_A\<lparr>quantity_in_stock := 0\<rparr>"
  let ?u = "component_A\<lparr>quantity_in_stock := 0, available := False\<rparr>"
  have one: "product composition_PA = 1"
    by (simp add: composition_PA_def)
  have sole: "product_productcomposition_set db_shop (product composition_PA) = [composition_PA]"
    "component composition_PA = component_id ?c" "quantity_in_stock ?c = 0" "new_arrival ?c = 0"
    "available ?c"
    by (simp_all add: product_productcomposition_set_def shop_defs)
  have gone: "component composition_PA = component_id ?u" "quantity_in_stock ?u = 0"
    "new_arrival ?u = 0" "\<not> available ?u"
    by (simp_all add: shop_defs)
  have w: "write_composition db_shop composition_PA = db_shop"
    by (simp add: write_composition_def shop_defs)
  have av: "all_components_available (write_composition db_shop composition_PA) 1"
    by (simp add: w) (simp add: all_components_available_def product_productcomposition_set_def
        shop_defs)
  have st: "status_by_stock (write_composition db_shop composition_PA) 1 = STATUS_AVAILABLE"
    by (simp add: w) (simp add: status_by_stock_def units_per_composition_def
        units_available_def product_productcomposition_set_def shop_defs)
  note inst = status_follows_minimum_of_stock_quotients [OF wf_db_shop shop_PA]
  from inst [of ?c] obtain d' p' where "save_composition db_shop composition_PA = Inr d'"
    "d' = write_product (write_composition db_shop composition_PA) p'"
    "products d' (product composition_PA) = Some p'"
    "all_components_available d' (product composition_PA) \<longrightarrow>
       status p' = status_by_stock d' (product composition_PA)"
    by blast
  then have a: "\<exists>d' p'. save_composition db_shop composition_PA = Inr d' \<and>
      products d' 1 = Some p' \<and> status p' = STATUS_AVAILABLE"
    using av st by (simp add: one)
  from inst [of ?c] sole have "\<exists>d' p'. save_component db_shop ?c = Inr d' \<and>
      products d' (product composition_PA) = Some p' \<and> status p' = STATUS_ONLY_ORDER"
    by simp
  then have b: "\<exists>d' p'. save_component db_shop ?c = Inr d' \<and>
      products d' 1 = Some p' \<and> status p' = STATUS_ONLY_ORDER"
    by (simp add: one)
  from inst [of ?u] sole(1) gone have "\<exists>d' p'. save_component db_shop ?u = Inr d' \<and>
      products d' (product composition_PA) = Some p' \<and> status p' = STATUS_UNAVAILABLE"
    by simp
  then have c: "\<exists>d' p'. save_component db_shop ?u = Inr d' \<and>
      products d' 1 = Some p' \<and> status p' = STATUS_UNAVAILABLE"
    by (simp add: one)
  from a b c av sole wf_db_shop shop_PA show ?thesis
    by blast
qed

text \<open>
  C5. A component write folds the new arrival into the stock: after the \<^verbatim>\<open>pre_save\<close>
  receiver \<open>new_arrival\<close> is 0 and \<open>quantity_in_stock\<close> is the sum of the two values the
  instance carried, and the row that \<^verbatim>\<open>component.save()\<close> leaves in the database, once its
  cascade has run, holds exactly these values.
\<close>

theorem component_write_folds_new_arrival:
  assumes "wf_db d"
  shows "new_arrival (recalculate_quantity_in_stock_before_save c) = 0 \<and>
         quantity_in_stock (recalculate_quantity_in_stock_before_save c)
           = quantity_in_stock c + new_arrival c \<and>
         (\<exists>d' k. save_component d c = Inr d' \<and> components d' (component_id c) = Some k \<and>
                  new_arrival k = 0 \<and>
                  quantity_in_stock k = quantity_in_stock c + new_arrival c)"
  by (simp add: save_component_wf [OF assms] recalculate_quantity_in_stock_before_save_def)
     (simp add: add_new_arrival_def write_component_def)

theorem component_write_folds_new_arrival_witness:
  "wf_db db_shop \<and>
   new_arrival (recalculate_quantity_in_stock_before_save (component_A\<lparr>new_arrival := 7\<rparr>)) = 0 \<and>
   quantity_in_stock (recalculate_quantity_in_stock_before_save (component_A\<lparr>new_arrival := 7\<rparr>))
     = 17 \<and>
   (\<exists>d' k. save_component db_shop (component_A\<lparr>new_arrival := 7\<rparr>) = Inr d' \<and>
            components d' 1 = Some k \<and> new_arrival k = 0 \<and> quantity_in_stock k = 17)"
  using component_write_folds_new_arrival [OF wf_db_shop, of "component_A\<lparr>new_arrival := 7\<rparr>"]
  by (simp add: wf_db_shop component_A_def)



text \<open>
  C7. Recomputing a product twice in a row is idempotent: the receiver of a composition
  write, run again on the database it produced, returns that same database, and so does a
  plain write of the stored product. Price, discounted price and status are therefore
  the same after the second recomputation as after the first.
\<close>

theorem product_recalculation_is_idempotent:
  assumes "wf_db d" and "products d (product r) = Some p" and "product_id p = product r"
  shows "\<exists>d1 p1. save_product_after_save d r = Inr d1 \<and>
           products d1 (product r) = Some p1 \<and>
           save_product_after_save d1 r = Inr d1 \<and>
           save_product d1 p1 = Inr d1"
proof -
  let ?d1 = "recalculate_products d {product r}"
  have one: "save_product_after_save d r = Inr ?d1"
    using assms by (simp add: save_product_after_save_wf write_product_recalculated)
  have w1: "wf_db ?d1"
    using assms(1) by (rule wf_db_recalculate_products)
  have p1: "products ?d1 (product r) = Some (recalculated d p)"
    using assms(2) by (rule products_recalculate_products_in)
  have id1: "product_id (recalculated d p) = product r"
    using assms(3) by simp
  have "save_product_after_save ?d1 r = Inr (write_product ?d1 (recalculated ?d1 (recalculated d p)))"
    using w1 p1 by (rule save_product_after_save_wf)
  also have "write_product ?d1 (recalculated ?d1 (recalculated d p))
      = recalculate_products ?d1 {product r}"
    using p1 id1 by (simp add: write_product_recalculated)
  also have "\<dots> = ?d1"
    by (simp add: recalculate_products_twice)
  finally have two: "save_product_after_save ?d1 r = Inr ?d1" .
  from get_productcomponent_status_wf [OF w1, of "recalculated d p"]
  obtain a where a: "get_productcomponent_status ?d1 (recalculated d p) = Inr a"
    "a = Some False \<longleftrightarrow> first_component_unavailable d (product r)"
    using assms(3) by auto
  have "recalculate_new_price ?d1 (recalculated d p) = Inr (recalculated d p)"
    using a assms(3)
    by (simp add: recalculate_new_price_def Let_def recalculated_def get_new_price_def)
  moreover have "write_product ?d1 (recalculated d p) = ?d1"
    using p1 id1 by (simp add: write_product_def fun_upd_idem)
  ultimately have three: "save_product ?d1 (recalculated d p) = Inr ?d1"
    by (simp add: save_product_def save_orderitem_after_save_def save_orderitem_def)
  from one p1 two three show ?thesis
    by blast
qed

theorem product_recalculation_is_idempotent_witness:
  "wf_db db_shop \<and> products db_shop (product composition_PA) = Some product_P \<and>
   product_id product_P = product composition_PA \<and>
   (\<exists>d1 p1. save_product_after_save db_shop composition_PA = Inr d1 \<and>
      products d1 (product composition_PA) = Some p1 \<and>
      save_product_after_save d1 composition_PA = Inr d1 \<and>
      save_product d1 p1 = Inr d1)"
  using product_recalculation_is_idempotent [OF wf_db_shop shop_PA(1,2)] wf_db_shop shop_PA
  by blast

text \<open>
  C8. Deleting a component that a composition still refers to fails with
  \<^verbatim>\<open>ProtectedError\<close> and leaves the database as it was: the component stays stored and no
  composition is removed or changed.
\<close>

theorem referenced_component_is_protected:
  assumes "r \<in> set (compositions d)" and "component r = component_id c"
  shows "delete_component d c = (Inl ProtectedError, d)"
proof -
  from assms have "r \<in> set (component_productcomposition_set d (component_id c))"
    by (simp add: component_productcomposition_set_def)
  then have "component_productcomposition_set d (component_id c) \<noteq> []"
    by auto
  then show ?thesis
    by (simp add: delete_component_def)
qed

theorem referenced_component_is_protected_witness:
  "composition_PA \<in> set (compositions db_shop) \<and>
   component composition_PA = component_id component_A \<and>
   delete_component db_shop component_A = (Inl ProtectedError, db_shop)"
proof -
  have h: "composition_PA \<in> set (compositions db_shop)"
    "component composition_PA = component_id component_A"
    by (simp_all add: shop_defs)
  from referenced_component_is_protected [OF h] h show ?thesis
    by simp
qed

text \<open>
  C9. The availability computation never divides by zero: a composition whose quantity is
  not positive is skipped before the floor division, so neither
  \<^verbatim>\<open>get_available_quantity_of_products\<close> nor \<^verbatim>\<open>get_status\<close> raises
  \<^verbatim>\<open>ZeroDivisionError\<close>, and both return in a well-formed database. A product all of whose
  compositions have quantity 0, or that has none, has available quantity 0 and status
  order-only.
\<close>

theorem availability_never_divides_by_zero:
  "get_available_quantity_of_products d p \<noteq> Inl ZeroDivisionError \<and>
   get_status d p \<noteq> Inl ZeroDivisionError \<and>
   (wf_db d \<longrightarrow> (\<exists>n s. get_available_quantity_of_products d p = Inr n \<and>
                       get_status d p = Inr s)) \<and>
   (list_all (\<lambda>r. quantity r = 0) (product_productcomposition_set d (product_id p)) \<longrightarrow>
      get_available_quantity_of_products d p = Inr 0 \<and>
      get_status d p = Inr STATUS_ONLY_ORDER)"
proof (intro conjI impI)
  show a: "get_available_quantity_of_products d p \<noteq> Inl ZeroDivisionError"
    using number_of_composition_available_no_zero_division
      [of d "[]" "product_productcomposition_set d (product_id p)"]
    by (auto simp: get_available_quantity_of_products_def split: sum.splits)
  show "get_status d p \<noteq> Inl ZeroDivisionError"
    using a by (auto simp: get_status_def split: sum.splits)
  show "\<exists>n s. get_available_quantity_of_products d p = Inr n \<and> get_status d p = Inr s"
    if "wf_db d"
    using that by (simp add: get_available_wf get_status_wf)
  assume z: "list_all (\<lambda>r. quantity r = 0) (product_productcomposition_set d (product_id p))"
  then show q: "get_available_quantity_of_products d p = Inr 0"
    by (simp add: get_available_quantity_of_products_def number_of_composition_available_skips)
  then show "get_status d p = Inr STATUS_ONLY_ORDER"
    by (simp add: get_status_def)
qed

theorem availability_never_divides_by_zero_witness:
  "wf_db (db_shop\<lparr>compositions := [composition_PA\<lparr>quantity := 0\<rparr>]\<rparr>) \<and>
   list_all (\<lambda>r. quantity r = 0)
     (product_productcomposition_set (db_shop\<lparr>compositions := [composition_PA\<lparr>quantity := 0\<rparr>]\<rparr>)
        (product_id product_P)) \<and>
   get_available_quantity_of_products
     (db_shop\<lparr>compositions := [composition_PA\<lparr>quantity := 0\<rparr>]\<rparr>) product_P = Inr 0 \<and>
   get_status (db_shop\<lparr>compositions := [composition_PA\<lparr>quantity := 0\<rparr>]\<rparr>) product_P
     = Inr STATUS_ONLY_ORDER"
proof -
  let ?d = "db_shop\<lparr>compositions := [composition_PA\<lparr>quantity := 0\<rparr>]\<rparr>"
  have w: "wf_db ?d"
    by (simp add: wf_db_def shop_defs)
  have z: "list_all (\<lambda>r. quantity r = 0) (product_productcomposition_set ?d (product_id product_P))"
    by (simp add: product_productcomposition_set_def shop_defs)
  from availability_never_divides_by_zero [of ?d product_P] w z show ?thesis
    by blast
qed

text \<open>
  C10. The \<^verbatim>\<open>pre_save\<close> receiver of a product changes nothing but \<open>status\<close> and
  \<open>new_price\<close> of the instance: price, discount, title and category are those the instance
  came with, and the row write that follows leaves the component and composition tables
  as they were.
\<close>

theorem pre_save_changes_status_and_new_price_only:
  assumes "recalculate_new_price d p = Inr p'"
  shows "p' = p\<lparr>status := status p', new_price := new_price p'\<rparr> \<and>
         price p' = price p \<and> discount p' = discount p \<and>
         title p' = title p \<and> category p' = category p \<and>
         components (write_product d p') = components d \<and>
         compositions (write_product d p') = compositions d"
  using assms
  by (auto simp: recalculate_new_price_def Let_def write_product_def split: sum.splits if_splits)

theorem pre_save_changes_status_and_new_price_only_witness:
  "recalculate_new_price db_mixed (product_P\<lparr>price := 100\<rparr>) =
     Inr (product_P\<lparr>price := 100, new_price := 80\<rparr>) \<and>
   price (product_P\<lparr>price := 100, new_price := 80\<rparr>) = 100 \<and>
   discount (product_P\<lparr>price := 100, new_price := 80\<rparr>) = 20 \<and>
   components (write_product db_mixed (product_P\<lparr>price := 100, new_price := 80\<rparr>))
     = components db_mixed \<and>
   compositions (write_product db_mixed (product_P\<lparr>price := 100, new_price := 80\<rparr>))
     = compositions db_mixed"
  using pre_save_changes_status_and_new_price_only [OF recalculate_new_price_mixed]
    recalculate_new_price_mixed
  by (simp add: product_P_def)

end
